theory Spec2Isabelle
  imports Main "HOL-Library.Char_ord" "HOL-Library.List_Lexorder" "HOL-Library.Product_Lexorder"
begin

section \<open>JavaScript values and exceptions\<close>

text \<open>
  The dispatch layer of \<^verbatim>\<open>convex/agent/toolLoader.ts\<close> (second document of
  \<^verbatim>\<open>src/convex/threads.ts\<close>) passes untyped JavaScript values around: action results,
  the parsed webhook configuration and the payloads a tool returns. They are modelled by
  one datatype. A number is \<open>NaN\<close>, an infinity, or the finite value \<open>m * 2^e\<close>; only its
  truthiness is ever observed.
\<close>

datatype jsnum = NaN | PosInfinity | NegInfinity | Dyadic int int

datatype jsval =
    JUndefined
  | JNull
  | JBool bool
  | JNumber jsnum
  | JString string
  | JArray "jsval list"
  | JObject "(string \<times> jsval) list"

text \<open>What a \<^verbatim>\<open>throw\<close> carries: the three \<^verbatim>\<open>Error\<close> classes met here with their message,
  or any other thrown value.\<close>

datatype exn = SyntaxError string | TypeError string | Error string | NonError jsval

text \<open>JavaScript truthiness, as \<^verbatim>\<open>if (x)\<close>, \<^verbatim>\<open>x ? a : b\<close> and \<^verbatim>\<open>x || d\<close> test it.\<close>

fun truthy_num :: "jsnum \<Rightarrow> bool" where
  "truthy_num NaN = False"
| "truthy_num (Dyadic m e) = (m \<noteq> 0)"
| "truthy_num PosInfinity = True"
| "truthy_num NegInfinity = True"

fun truthy :: "jsval \<Rightarrow> bool" where
  "truthy JUndefined = False"
| "truthy JNull = False"
| "truthy (JBool b) = b"
| "truthy (JNumber n) = truthy_num n"
| "truthy (JString s) = (s \<noteq> [])"
| "truthy (JArray vs) = True"
| "truthy (JObject kvs) = True"

text \<open>\<^verbatim>\<open>error instanceof Error ? error.message : 'Unknown error'\<close>\<close>

fun error_message :: "exn \<Rightarrow> string" where
  "error_message (SyntaxError m) = m"
| "error_message (TypeError m) = m"
| "error_message (Error m) = m"
| "error_message (NonError v) = ''Unknown error''"

text \<open>
  \<^verbatim>\<open>config.url\<close>: reading the property \<^verbatim>\<open>url\<close> throws a \<^verbatim>\<open>TypeError\<close> on \<^verbatim>\<open>null\<close> and
  \<^verbatim>\<open>undefined\<close>, finds the member of an object (an object from \<^verbatim>\<open>JSON.parse\<close> holds each
  key once) and is \<^verbatim>\<open>undefined\<close> on every other value.
\<close>

fun get_url :: "jsval \<Rightarrow> exn + jsval" where
  "get_url JUndefined = Inl (TypeError ''Cannot read properties of undefined'')"
| "get_url JNull = Inl (TypeError ''Cannot read properties of null'')"
| "get_url (JObject kvs) = Inr (case map_of kvs ''url'' of None \<Rightarrow> JUndefined | Some v \<Rightarrow> v)"
| "get_url v = Inr JUndefined"

section \<open>Data model\<close>

text \<open>A record of table \<^verbatim>\<open>skillRegistry\<close> (\<^verbatim>\<open>Doc<'skillRegistry'>\<close>), with the fields the
  loader reads. \<open>skill_id\<close> is the document's \<^verbatim>\<open>_id\<close>.\<close>

record skill =
  skill_id :: string
  name :: string
  description :: string
  skillType :: string
  templateId :: "string option"
  config :: "string option"
  approved :: bool
  active :: bool

text \<open>The verdict of \<^verbatim>\<open>checkSecurity\<close> and the optional context the webhook tool passes.\<close>

record verdict =
  allowed :: bool
  code :: string
  reason :: "string option"

record sec_context =
  domain :: "string option"

text \<open>The arguments of mutation \<^verbatim>\<open>skillInvocations.log\<close> (second document of
  \<^verbatim>\<open>src/convex/xTwitter.ts\<close>), which are the fields of a document of table
  \<^verbatim>\<open>skillInvocationLog\<close>. \<open>entry_skillType\<close>, \<open>entry_input\<close> and \<open>entry_output\<close>
  are the fields \<^verbatim>\<open>skillType\<close>, \<^verbatim>\<open>input\<close> and \<^verbatim>\<open>output\<close>.\<close>

record invocation =
  skillName :: string
  entry_skillType :: string
  threadId :: "string option"
  userId :: "string option"
  channel :: "string option"
  entry_input :: string
  entry_output :: "string option"
  success :: bool
  errorMessage :: "string option"
  securityCheckResult :: string
  durationMs :: int
  timestamp :: int

text \<open>A stored document: its \<^verbatim>\<open>_id\<close> and its fields. A table is the list of its documents
  in creation order (ascending \<^verbatim>\<open>_creationTime\<close>).\<close>

record row =
  doc_id :: nat
  doc :: invocation

type_synonym table = "row list"

text \<open>The two internal actions the tools run, with their arguments.\<close>

datatype action_call =
    TemplateExecute "string option" string string
  | WebhookCaller string string string

text \<open>
  What a tool's \<^verbatim>\<open>execute\<close> function reads from outside itself. \<^verbatim>\<open>checkSecurity\<close> and
  \<^verbatim>\<open>truncateForLog\<close> are imported from \<^verbatim>\<open>./security\<close>, which is not among the sources;
  \<^verbatim>\<open>JSON.parse\<close>, the \<^verbatim>\<open>URL\<close> constructor (followed by \<^verbatim>\<open>.hostname\<close>) and \<^verbatim>\<open>Date.now\<close> are
  built in; \<^verbatim>\<open>ctx.runAction\<close> runs code outside this layer. All are parameters of the
  model. A function that can throw returns \<open>Inl\<close> of what it throws; the checker returns
  a verdict, as its contract in the spec says, and \<^verbatim>\<open>truncateForLog\<close> returns a string.
  \<open>Date_now k\<close> is the value of the \<open>k\<close>-th reading of the clock.
\<close>

record env =
  checkSecurity :: "skill \<Rightarrow> string \<Rightarrow> sec_context option \<Rightarrow> verdict"
  truncateForLog :: "jsval \<Rightarrow> string"
  JSON_parse :: "string \<Rightarrow> exn + jsval"
  URL_hostname :: "jsval \<Rightarrow> exn + string"
  runAction :: "action_call \<Rightarrow> exn + jsval"
  Date_now :: "nat \<Rightarrow> int"

text \<open>The state a tool call changes: the audit table, the actions run so far, and how
  often the clock has been read.\<close>

record world =
  auditLog :: table
  actionCalls :: "action_call list"
  clockReads :: nat

section \<open>The audit table: writing\<close>

definition fresh_id :: "table \<Rightarrow> nat" where
  "fresh_id t = Suc (foldr max (map doc_id t) 0)"

text \<open>\<^verbatim>\<open>ctx.db.insert('skillInvocationLog', args)\<close>: a new document with an unused id, last
  in creation order; the id is returned.\<close>

definition db_insert :: "invocation \<Rightarrow> table \<Rightarrow> nat \<times> table" where
  "db_insert args t = (fresh_id t, t @ [\<lparr>doc_id = fresh_id t, doc = args\<rparr>])"

text \<open>Mutation \<^verbatim>\<open>log\<close>.\<close>

definition log :: "invocation \<Rightarrow> table \<Rightarrow> nat \<times> table" where
  "log args t = db_insert args t"

section \<open>The tool loader\<close>

definition read_clock :: "env \<Rightarrow> world \<Rightarrow> int \<times> world" where
  "read_clock e w = (Date_now e (clockReads w), w\<lparr>clockReads := Suc (clockReads w)\<rparr>)"

text \<open>
  \<^verbatim>\<open>logInvocation\<close>: the duration is computed from a first reading of the clock, the
  timestamp is a second reading, \<^verbatim>\<open>output\<close> is stored only when truthy, and the entry is
  written by mutation \<^verbatim>\<open>log\<close>. The write succeeds, as the spec expects of the audit log.
\<close>

definition logInvocation ::
  "env \<Rightarrow> skill \<Rightarrow> jsval \<Rightarrow> jsval \<Rightarrow> bool \<Rightarrow> verdict \<Rightarrow> int \<Rightarrow> string option \<Rightarrow> world \<Rightarrow> world"
where
  "logInvocation e sk inp out ok securityResult startTime errMsg w =
    (case read_clock e w of (t1, w1) \<Rightarrow>
     case read_clock e w1 of (t2, w2) \<Rightarrow>
       w2\<lparr>auditLog := snd (log
         \<lparr>skillName = name sk,
          entry_skillType = skillType sk,
          threadId = None, userId = None, channel = None,
          entry_input = truncateForLog e inp,
          entry_output = (if truthy out then Some (truncateForLog e out) else None),
          success = ok,
          errorMessage = errMsg,
          securityCheckResult = code securityResult,
          durationMs = t1 - startTime,
          timestamp = t2\<rparr> (auditLog w2))\<rparr>)"

text \<open>The two shapes of error payload: \<^verbatim>\<open>{ error: securityResult.reason }\<close> (the reason may
  be absent) and \<^verbatim>\<open>{ error: errorMessage }\<close>.\<close>

definition denied_payload :: "verdict \<Rightarrow> jsval" where
  "denied_payload v = JObject [(''error'', case reason v of None \<Rightarrow> JUndefined | Some r \<Rightarrow> JString r)]"

definition failed_payload :: "string \<Rightarrow> jsval" where
  "failed_payload m = JObject [(''error'', JString m)]"

text \<open>\<^verbatim>\<open>skill.config || '{}'\<close>\<close>

definition config_or_default :: "skill \<Rightarrow> string" where
  "config_or_default sk = (case config sk of None \<Rightarrow> ''{}'' | Some c \<Rightarrow> if c = [] then ''{}'' else c)"

text \<open>The \<^verbatim>\<open>try\<close>/\<^verbatim>\<open>catch\<close> block shared by the template and the webhook tool: run the
  action, log the outcome, return the result or the error payload.\<close>

definition run_logged ::
  "env \<Rightarrow> skill \<Rightarrow> string \<Rightarrow> verdict \<Rightarrow> int \<Rightarrow> action_call \<Rightarrow> world \<Rightarrow> (exn + jsval) \<times> world"
where
  "run_logged e sk inp securityResult startTime call w =
    (let w1 = w\<lparr>actionCalls := actionCalls w @ [call]\<rparr> in
     case runAction e call of
       Inr result \<Rightarrow>
         (Inr result, logInvocation e sk (JString inp) result True securityResult startTime None w1)
     | Inl err \<Rightarrow>
         (Inr (failed_payload (error_message err)),
          logInvocation e sk (JString inp) JNull False securityResult startTime
            (Some (error_message err)) w1))"

text \<open>\<^verbatim>\<open>execute\<close> of \<^verbatim>\<open>createTemplateSkillTool\<close>.\<close>

definition template_execute :: "env \<Rightarrow> skill \<Rightarrow> string \<Rightarrow> world \<Rightarrow> (exn + jsval) \<times> world" where
  "template_execute e sk inp w =
    (case read_clock e w of (startTime, w0) \<Rightarrow>
     let securityResult = checkSecurity e sk inp None in
     if \<not> allowed securityResult then
       (Inr (denied_payload securityResult),
        logInvocation e sk (JString inp) JNull False securityResult startTime None w0)
     else
       run_logged e sk inp securityResult startTime
         (TemplateExecute (templateId sk) (config_or_default sk) inp) w0)"

text \<open>
  The first two statements of the webhook tool's \<^verbatim>\<open>execute\<close>, which stand before the
  security check and outside the \<^verbatim>\<open>try\<close> block:
  \<^verbatim>\<open>const config = skill.config ? JSON.parse(skill.config) : {};\<close>
  \<^verbatim>\<open>const domain = config.url ? new URL(config.url).hostname : undefined;\<close>
\<close>

definition webhook_config :: "env \<Rightarrow> skill \<Rightarrow> exn + jsval" where
  "webhook_config e sk =
    (case config sk of
       None \<Rightarrow> Inr (JObject [])
     | Some c \<Rightarrow> if c = [] then Inr (JObject []) else JSON_parse e c)"

definition webhook_domain :: "env \<Rightarrow> skill \<Rightarrow> exn + string option" where
  "webhook_domain e sk =
    (case webhook_config e sk of
       Inl err \<Rightarrow> Inl err
     | Inr cfg \<Rightarrow>
        (case get_url cfg of
           Inl err \<Rightarrow> Inl err
         | Inr u \<Rightarrow>
            if truthy u then
              (case URL_hostname e u of Inl err \<Rightarrow> Inl err | Inr h \<Rightarrow> Inr (Some h))
            else Inr None))"

text \<open>\<^verbatim>\<open>execute\<close> of \<^verbatim>\<open>createWebhookSkillTool\<close>. An exception of the first two statements
  leaves the function: the promise rejects.\<close>

definition webhook_execute :: "env \<Rightarrow> skill \<Rightarrow> string \<Rightarrow> world \<Rightarrow> (exn + jsval) \<times> world" where
  "webhook_execute e sk inp w =
    (case read_clock e w of (startTime, w0) \<Rightarrow>
      (case webhook_domain e sk of
         Inl err \<Rightarrow> (Inl err, w0)
       | Inr host \<Rightarrow>
          (let securityResult = checkSecurity e sk inp (Some \<lparr>domain = host\<rparr>) in
           if \<not> allowed securityResult then
             (Inr (denied_payload securityResult),
              logInvocation e sk (JString inp) JNull False securityResult startTime None w0)
           else
             run_logged e sk inp securityResult startTime
               (WebhookCaller (config_or_default sk) inp (skill_id sk)) w0)))"

text \<open>\<^verbatim>\<open>execute\<close> of \<^verbatim>\<open>createCodeSkillTool\<close>: the placeholder runs no action; its result is
  a string, logged and returned as \<^verbatim>\<open>{ result }\<close>. Nothing in its \<^verbatim>\<open>try\<close> block throws.\<close>

definition code_result :: "skill \<Rightarrow> string \<Rightarrow> string" where
  "code_result sk query =
     ''Code skill '' @ [CHR 0x22] @ name sk @ [CHR 0x22] @ '' executed with query: '' @ query"

definition code_execute :: "env \<Rightarrow> skill \<Rightarrow> string \<Rightarrow> world \<Rightarrow> (exn + jsval) \<times> world" where
  "code_execute e sk query w =
    (case read_clock e w of (startTime, w0) \<Rightarrow>
     let securityResult = checkSecurity e sk query None in
     if \<not> allowed securityResult then
       (Inr (denied_payload securityResult),
        logInvocation e sk (JString query) JNull False securityResult startTime None w0)
     else
       (Inr (JObject [(''result'', JString (code_result sk query))]),
        logInvocation e sk (JString query) (JString (code_result sk query)) True
          securityResult startTime None w0))"

text \<open>
  A tool is the closure \<^verbatim>\<open>createTool\<close> builds; it is represented by the constructor that
  built it and the skill snapshot it captured. Its \<^verbatim>\<open>ctx\<close> is supplied when it is executed.
\<close>

datatype tool = TemplateSkillTool skill | WebhookSkillTool skill | CodeSkillTool skill

fun snapshot :: "tool \<Rightarrow> skill" where
  "snapshot (TemplateSkillTool sk) = sk"
| "snapshot (WebhookSkillTool sk) = sk"
| "snapshot (CodeSkillTool sk) = sk"

fun execute :: "env \<Rightarrow> tool \<Rightarrow> string \<Rightarrow> world \<Rightarrow> (exn + jsval) \<times> world" where
  "execute e (TemplateSkillTool sk) inp w = template_execute e sk inp w"
| "execute e (WebhookSkillTool sk) inp w = webhook_execute e sk inp w"
| "execute e (CodeSkillTool sk) inp w = code_execute e sk inp w"

definition createTemplateSkillTool :: "skill \<Rightarrow> tool" where
  "createTemplateSkillTool sk = TemplateSkillTool sk"

definition createWebhookSkillTool :: "skill \<Rightarrow> tool" where
  "createWebhookSkillTool sk = WebhookSkillTool sk"

definition createCodeSkillTool :: "skill \<Rightarrow> tool" where
  "createCodeSkillTool sk = CodeSkillTool sk"

text \<open>\<^verbatim>\<open>createToolFromSkill\<close>: the \<^verbatim>\<open>switch\<close> on the skill type; \<open>None\<close> is its \<^verbatim>\<open>null\<close>.\<close>

definition createToolFromSkill :: "skill \<Rightarrow> tool option" where
  "createToolFromSkill sk =
    (if skillType sk = ''template'' then Some (createTemplateSkillTool sk)
     else if skillType sk = ''webhook'' then Some (createWebhookSkillTool sk)
     else if skillType sk = ''code'' then Some (createCodeSkillTool sk)
     else None)"

text \<open>
  Modelled from the spec: query \<^verbatim>\<open>internal.skillRegistry.getActiveApproved\<close> is not among
  the sources. The spec says that a skill is eligible for loading iff
  \<^verbatim>\<open>approved && active\<close> and that the loader reads the approved and active skills; the
  query is taken to return those records of the registry, in the registry's order.
\<close>

definition getActiveApproved :: "skill list \<Rightarrow> skill list" where
  "getActiveApproved registry = filter (\<lambda>sk. approved sk \<and> active sk) registry"

text \<open>
  The object \<^verbatim>\<open>const tools: ToolSet = {}\<close>: its own keys with their values, and its
  prototype when an assignment has replaced it (\<open>None\<close> while it is still
  \<^verbatim>\<open>Object.prototype\<close>). The tool set is the mapping of its own keys.
\<close>

record toolset =
  own_keys :: "string \<rightharpoonup> tool"
  prototype :: "tool option"

text \<open>
  \<^verbatim>\<open>tools[skill.name] = toolFn\<close>. For every key but \<^verbatim>\<open>__proto__\<close> the assignment creates or
  overwrites an own key. For the key \<^verbatim>\<open>__proto__\<close> it runs the setter the object inherits
  from \<^verbatim>\<open>Object.prototype\<close>: the tool becomes the object's prototype and no own key is
  created.
\<close>

definition assign :: "toolset \<Rightarrow> string \<Rightarrow> tool \<Rightarrow> toolset" where
  "assign tools key toolFn =
     (if key = ''__proto__'' then tools\<lparr>prototype := Some toolFn\<rparr>
      else tools\<lparr>own_keys := (own_keys tools)(key \<mapsto> toolFn)\<rparr>)"

text \<open>The loop of \<^verbatim>\<open>loadTools\<close>: the assignment for every skill that yields a tool.\<close>

fun loadTools_loop :: "skill list \<Rightarrow> toolset \<Rightarrow> toolset" where
  "loadTools_loop [] tools = tools"
| "loadTools_loop (sk # rest) tools =
     loadTools_loop rest
       (case createToolFromSkill sk of
          Some toolFn \<Rightarrow> assign tools (name sk) toolFn
        | None \<Rightarrow> tools)"

definition loadTools :: "skill list \<Rightarrow> toolset" where
  "loadTools registry =
     loadTools_loop (getActiveApproved registry) \<lparr>own_keys = Map.empty, prototype = None\<rparr>"

section \<open>The audit table: reading and retention\<close>

text \<open>
  \<^verbatim>\<open>.withIndex(...)\<close> reads the documents in ascending order of the index key; documents
  with equal keys follow in creation order, which a stable sort of the table gives.
  \<^verbatim>\<open>.order('desc')\<close> reads the index backwards. The schema that declares the indexes of
  table \<^verbatim>\<open>skillInvocationLog\<close> is not among the sources, so the key of the index a query
  reads is a parameter of the query, named after the index.
\<close>

definition withIndex :: "(row \<Rightarrow> 'k::linorder) \<Rightarrow> table \<Rightarrow> row list" where
  "withIndex key t = sort_key key t"

definition order_desc :: "row list \<Rightarrow> row list" where
  "order_desc rs = rev rs"

text \<open>\<^verbatim>\<open>args.limit ?? 50\<close>. The database accepts only a natural number as the argument of
  \<^verbatim>\<open>.take\<close>.\<close>

definition page_size :: "nat option \<Rightarrow> nat" where
  "page_size limit = (case limit of None \<Rightarrow> 50 | Some n \<Rightarrow> n)"

text \<open>Query \<^verbatim>\<open>listBySkill\<close>; the range \<^verbatim>\<open>q.eq('skillName', args.skillName)\<close> keeps the
  documents of that skill.\<close>

definition listBySkill ::
  "(row \<Rightarrow> 'k::linorder) \<Rightarrow> table \<Rightarrow> string \<Rightarrow> nat option \<Rightarrow> row list" where
  "listBySkill by_skill_index t sname limit =
     take (page_size limit)
       (order_desc (filter (\<lambda>r. skillName (doc r) = sname) (withIndex by_skill_index t)))"

text \<open>Query \<^verbatim>\<open>listRecent\<close>.\<close>

definition listRecent :: "(row \<Rightarrow> 'k::linorder) \<Rightarrow> table \<Rightarrow> nat option \<Rightarrow> row list" where
  "listRecent by_timestamp_index t limit =
     take (page_size limit) (order_desc (withIndex by_timestamp_index t))"

text \<open>Query \<^verbatim>\<open>listSecurityFailures\<close>: the whole index, filtered, backwards, cut to the page
  size.\<close>

definition listSecurityFailures ::
  "(row \<Rightarrow> 'k::linorder) \<Rightarrow> table \<Rightarrow> nat option \<Rightarrow> row list" where
  "listSecurityFailures by_security_result_index t limit =
     take (page_size limit)
       (order_desc
          (filter (\<lambda>r. securityCheckResult (doc r) \<noteq> ''passed'')
             (withIndex by_security_result_index t)))"

text \<open>\<^verbatim>\<open>ctx.db.delete(id)\<close> removes the document with that id and throws when there is
  none.\<close>

definition db_delete :: "nat \<Rightarrow> table \<Rightarrow> exn + table" where
  "db_delete i t =
     (if i \<in> set (map doc_id t) then Inr (filter (\<lambda>r. doc_id r \<noteq> i) t)
      else Inl (Error ''Delete on nonexistent document''))"

text \<open>The loop \<^verbatim>\<open>for (const log of oldLogs) await ctx.db.delete(log._id)\<close>.\<close>

fun delete_all :: "row list \<Rightarrow> table \<Rightarrow> exn + table" where
  "delete_all [] t = Inr t"
| "delete_all (l # ls) t =
     (case db_delete (doc_id l) t of
        Inl err \<Rightarrow> Inl err
      | Inr t' \<Rightarrow> delete_all ls t')"

text \<open>\<^verbatim>\<open>const cutoff = Date.now() - 30 * 24 * 60 * 60 * 1000\<close>, at clock reading \<open>now\<close>.\<close>

definition cutoff :: "int \<Rightarrow> int" where
  "cutoff now = now - 30 * 24 * 60 * 60 * 1000"

text \<open>The query of \<^verbatim>\<open>cleanup\<close>: the first 1000 documents of index \<^verbatim>\<open>by_timestamp\<close> whose
  timestamp is below the cutoff.\<close>

definition oldLogs :: "(row \<Rightarrow> 'k::linorder) \<Rightarrow> int \<Rightarrow> table \<Rightarrow> row list" where
  "oldLogs by_timestamp_index now t =
     take 1000
       (filter (\<lambda>r. timestamp (doc r) < cutoff now) (withIndex by_timestamp_index t))"

text \<open>Mutation \<^verbatim>\<open>cleanup\<close>, run at clock reading \<open>now\<close>: the value \<^verbatim>\<open>deleted\<close> of the
  object it returns, and the table it leaves.\<close>

definition cleanup :: "(row \<Rightarrow> 'k::linorder) \<Rightarrow> int \<Rightarrow> table \<Rightarrow> exn + nat \<times> table" where
  "cleanup by_timestamp_index now t =
     (case delete_all (oldLogs by_timestamp_index now t) t of
        Inl err \<Rightarrow> Inl err
      | Inr t' \<Rightarrow> Inr (length (oldLogs by_timestamp_index now t), t'))"

text \<open>
  Modelled from the spec: the schema file, which declares the three indexes, is missing.
  The spec gives an entry the fields \<^verbatim>\<open>skillName\<close>, \<^verbatim>\<open>securityCheckResult\<close> and
  \<^verbatim>\<open>timestamp\<close> and reads the log by skill, by time and by security result. Each index is
  keyed by the field it is named after, then by \<^verbatim>\<open>timestamp\<close>. The sources name an index
  after its first field wherever they give a range for one
  (\<^verbatim>\<open>withIndex('by_skill', (q) => q.eq('skillName', ...))\<close>,
  \<^verbatim>\<open>withIndex('by_showOnLanding', (q) => q.eq('showOnLanding', true))\<close>). Strings are
  ordered lexicographically by character code.
\<close>

definition by_skill :: "row \<Rightarrow> string \<times> int" where
  "by_skill r = (skillName (doc r), timestamp (doc r))"

definition by_timestamp :: "row \<Rightarrow> int" where
  "by_timestamp r = timestamp (doc r)"

definition by_security_result :: "row \<Rightarrow> string \<times> int" where
  "by_security_result r = (securityCheckResult (doc r), timestamp (doc r))"

section \<open>Observations\<close>

text \<open>The entries a call has added to the audit table, between the state before it and
  the state after it.\<close>

definition written :: "world \<Rightarrow> world \<Rightarrow> row list" where
  "written w w' = drop (length (auditLog w)) (auditLog w')"

text \<open>The verdict the security checker returns in one invocation of a tool: the call of
  \<^verbatim>\<open>checkSecurity\<close> each \<^verbatim>\<open>execute\<close> makes. It is \<open>Inl\<close> when the invocation ends before
  the checker is called.\<close>

fun security_check :: "env \<Rightarrow> tool \<Rightarrow> string \<Rightarrow> exn + verdict" where
  "security_check e (TemplateSkillTool sk) inp = Inr (checkSecurity e sk inp None)"
| "security_check e (WebhookSkillTool sk) inp =
     (case webhook_domain e sk of
        Inl err \<Rightarrow> Inl err
      | Inr host \<Rightarrow> Inr (checkSecurity e sk inp (Some \<lparr>domain = host\<rparr>)))"
| "security_check e (CodeSkillTool sk) inp = Inr (checkSecurity e sk inp None)"

text \<open>What the underlying action of a tool yields once the checker has allowed the call:
  the result or the exception of \<^verbatim>\<open>ctx.runAction\<close> for a template or webhook tool, the
  placeholder's \<^verbatim>\<open>{ result }\<close> for a code tool.\<close>

fun action_outcome :: "env \<Rightarrow> tool \<Rightarrow> string \<Rightarrow> exn + jsval" where
  "action_outcome e (TemplateSkillTool sk) inp =
     runAction e (TemplateExecute (templateId sk) (config_or_default sk) inp)"
| "action_outcome e (WebhookSkillTool sk) inp =
     runAction e (WebhookCaller (config_or_default sk) inp (skill_id sk))"
| "action_outcome e (CodeSkillTool sk) inp =
     Inr (JObject [(''result'', JString (code_result sk inp))])"

text \<open>A page of entries is newest first when timestamps never increase along it.\<close>

definition newest_first :: "row list \<Rightarrow> bool" where
  "newest_first rs = sorted_wrt (\<lambda>a b. timestamp (doc a) \<ge> timestamp (doc b)) rs"

section \<open>Scenarios\<close>

text \<open>
  The skills, environments and tables of the examples below. \<open>ping\<close> is the webhook skill
  of the spec's scenarios; \<open>broken\<close> stores a configuration that is not JSON,
  \<open>misdirected\<close> one whose \<^verbatim>\<open>url\<close> is not a URL.
\<close>

definition ping_config :: string where
  \<open>ping_config = ''{"url": "https://example.com/hook"}''\<close>

definition misdirected_config :: string where
  \<open>misdirected_config = ''{"url": "not a url"}''\<close>

definition ping :: skill where
  "ping = \<lparr>skill_id = ''k17'', name = ''ping'', description = ''Calls the hook'',
            skillType = ''webhook'', templateId = None, config = Some ping_config,
            approved = True, active = True\<rparr>"

definition broken :: skill where
  "broken = ping\<lparr>skill_id := ''k18'', name := ''broken'', config := Some ''{not json''\<rparr>"

definition misdirected :: skill where
  "misdirected =
     ping\<lparr>skill_id := ''k20'', name := ''misdirected'', config := Some misdirected_config\<rparr>"

definition greet :: skill where
  "greet = \<lparr>skill_id = ''k19'', name = ''greet'', description = ''Fills a template'',
             skillType = ''template'', templateId = Some ''greeting'', config = None,
             approved = True, active = True\<rparr>"




text \<open>Stand-ins for \<^verbatim>\<open>JSON.parse\<close> and \<^verbatim>\<open>new URL(...).hostname\<close>: they agree with the built-in
  functions on the three configuration strings above, which is all the scenarios read.\<close>

definition scenario_parse :: "string \<Rightarrow> exn + jsval" where
  "scenario_parse s =
     (if s = ping_config then Inr (JObject [(''url'', JString ''https://example.com/hook'')])
      else if s = misdirected_config then Inr (JObject [(''url'', JString ''not a url'')])
      else Inl (SyntaxError ''Unexpected token n in JSON at position 1''))"

definition scenario_hostname :: "jsval \<Rightarrow> exn + string" where
  "scenario_hostname u =
     (if u = JString ''https://example.com/hook'' then Inr ''example.com''
      else Inl (TypeError ''Invalid URL''))"

text \<open>An environment whose checker answers every call with the verdict \<open>v\<close> and whose
  actions answer \<^verbatim>\<open>"pong"\<close>.\<close>

definition scenario_env :: "verdict \<Rightarrow> env" where
  "scenario_env v =
     \<lparr>checkSecurity = (\<lambda>sk inp c. v),
      truncateForLog = (\<lambda>x. case x of JString s \<Rightarrow> take 1000 s | _ \<Rightarrow> ''[object]''),
      JSON_parse = scenario_parse,
      URL_hostname = scenario_hostname,
      runAction = (\<lambda>c. Inr (JString ''pong'')),
      Date_now = (\<lambda>k. 1700000000000 + int k)\<rparr>"

definition passed :: verdict where
  "passed = \<lparr>allowed = True, code = ''passed'', reason = None\<rparr>"

definition not_allowlisted :: verdict where
  "not_allowlisted = \<lparr>allowed = False, code = ''domain_not_allowlisted'',
                       reason = Some ''host not permitted''\<rparr>"

definition idle :: world where
  "idle = \<lparr>auditLog = [], actionCalls = [], clockReads = 0\<rparr>"

text \<open>Audit entries: of skill \<open>sname\<close>, with security result \<open>result\<close>, logged at \<open>ts\<close>.\<close>

definition entry :: "string \<Rightarrow> string \<Rightarrow> int \<Rightarrow> invocation" where
  "entry sname result ts =
     \<lparr>skillName = sname, entry_skillType = ''webhook'', threadId = None, userId = None,
      channel = None, entry_input = ''hello'', entry_output = None,
      success = (result = ''passed''), errorMessage = None, securityCheckResult = result,
      durationMs = 5, timestamp = ts\<rparr>"

text \<open>Two denied invocations: the older one was rate limited, the newer one was refused
  for its domain.\<close>

definition limited :: row where
  "limited = \<lparr>doc_id = 1, doc = entry ''ping'' ''rate_limited'' 1700000000100\<rparr>"

definition refused :: row where
  "refused = \<lparr>doc_id = 2, doc = entry ''ping'' ''domain_not_allowlisted'' 1700000000200\<rparr>"

definition failures :: table where
  "failures = [limited, refused]"

text \<open>Entries logged at 1700000000000, which a sweep at 1702592000001 finds older than
  30 days, and one logged a second before that sweep.\<close>

definition aged :: "nat \<Rightarrow> row" where
  "aged i = \<lparr>doc_id = i, doc = entry ''ping'' ''passed'' 1700000000000\<rparr>"

definition recent :: "nat \<Rightarrow> row" where
  "recent i = \<lparr>doc_id = i, doc = entry ''ping'' ''passed'' 1702591999001\<rparr>"

definition backlog :: table where
  "backlog = map aged [0..<1001]"

section \<open>Tool invocation\<close>

subsection \<open>What \<^verbatim>\<open>logInvocation\<close> writes\<close>

lemma logInvocation_auditLog:
  "\<exists>r. auditLog (logInvocation e sk inp out ok v st em w) = auditLog w @ [r]
     \<and> success (doc r) = ok
     \<and> entry_output (doc r) = (if truthy out then Some (truncateForLog e out) else None)
     \<and> errorMessage (doc r) = em
     \<and> securityCheckResult (doc r) = code v"
  by (simp add: logInvocation_def read_clock_def log_def db_insert_def)

lemma logInvocation_frame:
  "actionCalls (logInvocation e sk inp out ok v st em w) = actionCalls w"
  "clockReads (logInvocation e sk inp out ok v st em w) = Suc (Suc (clockReads w))"
  by (simp_all add: logInvocation_def read_clock_def log_def db_insert_def)

lemma written_logInvocation:
  assumes "auditLog w0 = auditLog w"
  shows "auditLog (logInvocation e sk inp out ok v st em w0) =
           auditLog w @ written w (logInvocation e sk inp out ok v st em w0)"
    and "map (\<lambda>r. success (doc r)) (written w (logInvocation e sk inp out ok v st em w0)) = [ok]"
    and "map (\<lambda>r. entry_output (doc r)) (written w (logInvocation e sk inp out ok v st em w0)) =
           [if truthy out then Some (truncateForLog e out) else None]"
    and "map (\<lambda>r. errorMessage (doc r)) (written w (logInvocation e sk inp out ok v st em w0)) = [em]"
    and "map (\<lambda>r. securityCheckResult (doc r))
           (written w (logInvocation e sk inp out ok v st em w0)) = [code v]"
    and "length (written w (logInvocation e sk inp out ok v st em w0)) = 1"
  using logInvocation_auditLog[of e sk inp out ok v st em w0] assms
  by (auto simp: written_def)

lemma run_logged_returns:
  assumes "auditLog w0 = auditLog w"
  shows "fst (run_logged e sk inp sr st call w0) =
           (case runAction e call of
              Inl err \<Rightarrow> Inr (failed_payload (error_message err))
            | Inr res \<Rightarrow> Inr res)"
    and "auditLog (snd (run_logged e sk inp sr st call w0)) =
           auditLog w @ written w (snd (run_logged e sk inp sr st call w0))"
    and "map (\<lambda>r. success (doc r)) (written w (snd (run_logged e sk inp sr st call w0))) =
           [case runAction e call of Inl err \<Rightarrow> False | Inr res \<Rightarrow> True]"
    and "length (written w (snd (run_logged e sk inp sr st call w0))) = 1"
    and "actionCalls (snd (run_logged e sk inp sr st call w0)) = actionCalls w0 @ [call]"
  using assms
  by (auto simp: run_logged_def Let_def written_logInvocation[where w = w] logInvocation_frame
      split: sum.splits)

lemma run_logged_resolves: "\<exists>v. fst (run_logged e sk inp sr st call w0) = Inr v"
  by (cases "runAction e call") (simp_all add: run_logged_returns(1)[OF refl])

lemma clock_read_keeps_log: "auditLog (w\<lparr>clockReads := k\<rparr>) = auditLog w"
  by simp

subsection \<open>Denied invocations\<close>

text \<open>
  C4: whenever the security checker returns a verdict with \<open>allowed = False\<close>, no action
  is run, exactly one audit entry is written, with \<open>success = False\<close>, no output and the
  verdict's code as \<open>securityCheckResult\<close>, and the caller receives the error payload
  that holds the verdict's reason: \<^verbatim>\<open>{ error: r }\<close> for a verdict with reason \<open>r\<close>, and
  \<^verbatim>\<open>{ error: undefined }\<close> for a verdict that carries none. This holds for all three kinds
  of tool.
\<close>

theorem denied_invocation:
  assumes "security_check e tf inp = Inr v" and "\<not> allowed v"
  shows "(\<forall>r. reason v = Some r \<longrightarrow>
            fst (execute e tf inp w) = Inr (JObject [(''error'', JString r)]))
       \<and> (reason v = None \<longrightarrow>
            fst (execute e tf inp w) = Inr (JObject [(''error'', JUndefined)]))
       \<and> actionCalls (snd (execute e tf inp w)) = actionCalls w
       \<and> auditLog (snd (execute e tf inp w)) = auditLog w @ written w (snd (execute e tf inp w))
       \<and> map (\<lambda>r. success (doc r)) (written w (snd (execute e tf inp w))) = [False]
       \<and> map (\<lambda>r. entry_output (doc r)) (written w (snd (execute e tf inp w))) = [None]
       \<and> map (\<lambda>r. securityCheckResult (doc r)) (written w (snd (execute e tf inp w))) = [code v]"
proof -
  let ?w0 = "w\<lparr>clockReads := Suc (clockReads w)\<rparr>"
  let ?w' = "logInvocation e (snapshot tf) (JString inp) JNull False v
               (Date_now e (clockReads w)) None ?w0"
  have ex: "execute e tf inp w =
      (Inr (JObject [(''error'', case reason v of None \<Rightarrow> JUndefined | Some r \<Rightarrow> JString r)]), ?w')"
    using assms
    by (cases tf)
       (auto simp: template_execute_def webhook_execute_def code_execute_def read_clock_def
          denied_payload_def Let_def split: sum.splits)
  note L = written_logInvocation[OF clock_read_keeps_log]
  show ?thesis
    by (simp add: ex logInvocation_frame L)
qed

text \<open>The second scenario of the spec: \<open>ping\<close> is invoked with \<^verbatim>\<open>"hello"\<close> and the checker
  answers \<^verbatim>\<open>domain_not_allowlisted\<close> with reason \<^verbatim>\<open>host not permitted\<close>.\<close>

theorem denied_invocation_witness:
  "security_check (scenario_env not_allowlisted) (WebhookSkillTool ping) ''hello''
     = Inr not_allowlisted
   \<and> \<not> allowed not_allowlisted
   \<and> fst (execute (scenario_env not_allowlisted) (WebhookSkillTool ping) ''hello'' idle)
     = Inr (JObject [(''error'', JString ''host not permitted'')])
   \<and> actionCalls (snd (execute (scenario_env not_allowlisted) (WebhookSkillTool ping) ''hello'' idle))
     = []
   \<and> map (\<lambda>r. success (doc r))
        (written idle (snd (execute (scenario_env not_allowlisted) (WebhookSkillTool ping) ''hello'' idle)))
     = [False]
   \<and> map (\<lambda>r. securityCheckResult (doc r))
        (written idle (snd (execute (scenario_env not_allowlisted) (WebhookSkillTool ping) ''hello'' idle)))
     = [''domain_not_allowlisted'']"
proof -
  have c: "security_check (scenario_env not_allowlisted) (WebhookSkillTool ping) ''hello''
             = Inr not_allowlisted"
    by (simp add: webhook_domain_def webhook_config_def scenario_env_def scenario_parse_def
          scenario_hostname_def ping_def ping_config_def)
  have d: "\<not> allowed not_allowlisted"
    by (simp add: not_allowlisted_def)
  from denied_invocation[OF c d, of idle] c d show ?thesis
    by (simp add: not_allowlisted_def idle_def)
qed

subsection \<open>Allowed invocations\<close>

text \<open>
  When the checker allows the call, the tool returns what its action yields, or the error
  payload holding the message of what the action threw, and the one audit entry it
  writes has \<open>success = True\<close> in the first case and \<open>success = False\<close> in the second.
\<close>

theorem allowed_invocation:
  assumes "security_check e tf inp = Inr v" and "allowed v"
  shows "fst (execute e tf inp w) =
           (case action_outcome e tf inp of
              Inl err \<Rightarrow> Inr (JObject [(''error'', JString (error_message err))])
            | Inr res \<Rightarrow> Inr res)
       \<and> auditLog (snd (execute e tf inp w)) = auditLog w @ written w (snd (execute e tf inp w))
       \<and> map (\<lambda>r. success (doc r)) (written w (snd (execute e tf inp w))) =
           [case action_outcome e tf inp of Inl err \<Rightarrow> False | Inr res \<Rightarrow> True]
       \<and> map (\<lambda>r. securityCheckResult (doc r)) (written w (snd (execute e tf inp w))) = [code v]"
proof -
  note L = written_logInvocation[OF clock_read_keeps_log]
    run_logged_returns(1-3)[OF clock_read_keeps_log]
  have sec: "\<And>sk sr st call w0. auditLog w0 = auditLog w \<Longrightarrow>
      map (\<lambda>r. securityCheckResult (doc r)) (written w (snd (run_logged e sk inp sr st call w0)))
        = [code sr]"
    by (auto simp: run_logged_def Let_def written_logInvocation split: sum.splits)
  show ?thesis
    using assms
    by (cases tf)
       (auto simp: template_execute_def webhook_execute_def code_execute_def read_clock_def
          failed_payload_def Let_def L sec split: sum.splits)
qed

theorem allowed_invocation_witness:
  "security_check (scenario_env passed) (WebhookSkillTool ping) ''hello'' = Inr passed
   \<and> allowed passed
   \<and> fst (execute (scenario_env passed) (WebhookSkillTool ping) ''hello'' idle) = Inr (JString ''pong'')
   \<and> map (\<lambda>r. success (doc r))
        (written idle (snd (execute (scenario_env passed) (WebhookSkillTool ping) ''hello'' idle)))
      = [True]
   \<and> map (\<lambda>r. securityCheckResult (doc r))
        (written idle (snd (execute (scenario_env passed) (WebhookSkillTool ping) ''hello'' idle)))
      = [''passed'']"
proof -
  have c: "security_check (scenario_env passed) (WebhookSkillTool ping) ''hello'' = Inr passed"
    by (simp add: webhook_domain_def webhook_config_def scenario_env_def scenario_parse_def
          scenario_hostname_def ping_def ping_config_def)
  have a: "allowed passed"
    by (simp add: passed_def)
  from allowed_invocation[OF c a, of idle] c a show ?thesis
    by (simp add: passed_def scenario_env_def)
qed

text \<open>
  The template tool and the code tool always resolve to a value and write exactly one
  audit entry, whatever the skill record, the input and the environment.
\<close>

theorem template_and_code_always_resolve:
  assumes "tf = TemplateSkillTool sk \<or> tf = CodeSkillTool sk"
  shows "(\<exists>v. fst (execute e tf inp w) = Inr v)
       \<and> auditLog (snd (execute e tf inp w)) = auditLog w @ written w (snd (execute e tf inp w))
       \<and> length (written w (snd (execute e tf inp w))) = 1"
proof -
  note L = written_logInvocation[OF clock_read_keeps_log]
    run_logged_returns(2-4)[OF clock_read_keeps_log] run_logged_resolves
  from assms show ?thesis
  proof
    assume "tf = TemplateSkillTool sk"
    then show ?thesis
      by (cases "allowed (checkSecurity e sk inp None)")
         (simp_all add: template_execute_def read_clock_def Let_def L)
  next
    assume "tf = CodeSkillTool sk"
    then show ?thesis
      by (cases "allowed (checkSecurity e sk inp None)")
         (simp_all add: code_execute_def read_clock_def Let_def L)
  qed
qed

theorem template_and_code_always_resolve_witness:
  "fst (execute (scenario_env passed) (TemplateSkillTool greet) ''hello'' idle) = Inr (JString ''pong'')
   \<and> length (written idle (snd (execute (scenario_env passed) (TemplateSkillTool greet) ''hello'' idle))) = 1"
proof -
  have "fst (execute (scenario_env passed) (TemplateSkillTool greet) ''hello'' idle)
          = Inr (JString ''pong'')"
    by (simp add: template_execute_def run_logged_def read_clock_def scenario_env_def passed_def
          Let_def)
  with template_and_code_always_resolve[of "TemplateSkillTool greet" greet "scenario_env passed"
      "''hello''" idle]
  show ?thesis
    by simp
qed

text \<open>
  The webhook tool does the same once its configuration has been read: when the first
  two statements of \<^verbatim>\<open>execute\<close> succeed, the call resolves to a value and writes exactly
  one audit entry.
\<close>

theorem webhook_resolves_when_config_read:
  assumes "webhook_domain e sk = Inr host"
  shows "(\<exists>v. fst (execute e (WebhookSkillTool sk) inp w) = Inr v)
       \<and> auditLog (snd (execute e (WebhookSkillTool sk) inp w)) =
           auditLog w @ written w (snd (execute e (WebhookSkillTool sk) inp w))
       \<and> length (written w (snd (execute e (WebhookSkillTool sk) inp w))) = 1"
proof -
  note L = written_logInvocation[OF clock_read_keeps_log]
    run_logged_returns(2-4)[OF clock_read_keeps_log] run_logged_resolves
  show ?thesis
    by (cases "allowed (checkSecurity e sk inp (Some \<lparr>domain = host\<rparr>))")
       (simp_all add: webhook_execute_def read_clock_def Let_def assms L)
qed

text \<open>The first scenario of the spec: the checker lets \<open>ping\<close> pass and the hook answers
  \<^verbatim>\<open>"pong"\<close>.\<close>

theorem webhook_resolves_when_config_read_witness:
  "webhook_domain (scenario_env passed) ping = Inr (Some ''example.com'')
   \<and> execute (scenario_env passed) (WebhookSkillTool ping) ''hello'' idle =
       (Inr (JString ''pong''),
        \<lparr>auditLog =
           [\<lparr>doc_id = 1,
             doc = \<lparr>skillName = ''ping'', entry_skillType = ''webhook'', threadId = None,
                    userId = None, channel = None, entry_input = ''hello'',
                    entry_output = Some ''pong'', success = True, errorMessage = None,
                    securityCheckResult = ''passed'', durationMs = 1,
                    timestamp = 1700000000002\<rparr>\<rparr>],
         actionCalls = [WebhookCaller ping_config ''hello'' ''k17''],
         clockReads = 3\<rparr>)"
proof -
  have d: "webhook_domain (scenario_env passed) ping = Inr (Some ''example.com'')"
    by (simp add: webhook_domain_def webhook_config_def scenario_env_def scenario_parse_def
          scenario_hostname_def ping_def ping_config_def)
  have "execute (scenario_env passed) (WebhookSkillTool ping) ''hello'' idle =
       (Inr (JString ''pong''),
        \<lparr>auditLog =
           [\<lparr>doc_id = 1,
             doc = \<lparr>skillName = ''ping'', entry_skillType = ''webhook'', threadId = None,
                    userId = None, channel = None, entry_input = ''hello'',
                    entry_output = Some ''pong'', success = True, errorMessage = None,
                    securityCheckResult = ''passed'', durationMs = 1,
                    timestamp = 1700000000002\<rparr>\<rparr>],
         actionCalls = [WebhookCaller ping_config ''hello'' ''k17''],
         clockReads = 3\<rparr>)"
    by code_simp
  with webhook_resolves_when_config_read[OF d, of "''hello''" idle] d show ?thesis
    by simp
qed


subsection \<open>A webhook configuration that cannot be read\<close>

text \<open>
  The first two statements of the webhook tool's \<^verbatim>\<open>execute\<close> stand outside its \<^verbatim>\<open>try\<close>
  block and before every call of \<^verbatim>\<open>logInvocation\<close>. When one of them throws (the stored
  configuration is not JSON, it is the JSON value \<^verbatim>\<open>null\<close>, or its \<^verbatim>\<open>url\<close> is not a URL),
  the exception leaves \<^verbatim>\<open>execute\<close>: the checker is not called, no action is run and no
  audit entry is written.
\<close>

theorem webhook_config_failure_escapes:
  assumes "webhook_domain e sk = Inl err"
  shows "execute e (WebhookSkillTool sk) inp w = (Inl err, w\<lparr>clockReads := Suc (clockReads w)\<rparr>)"
  by (simp add: webhook_execute_def read_clock_def assms)

theorem webhook_config_failure_escapes_witness:
  "webhook_domain (scenario_env passed) misdirected = Inl (TypeError ''Invalid URL'')
   \<and> execute (scenario_env passed) (WebhookSkillTool misdirected) ''hello'' idle =
       (Inl (TypeError ''Invalid URL''), idle\<lparr>clockReads := 1\<rparr>)"
proof -
  have d: "webhook_domain (scenario_env passed) misdirected = Inl (TypeError ''Invalid URL'')"
    by (simp add: webhook_domain_def webhook_config_def scenario_env_def scenario_parse_def
          scenario_hostname_def misdirected_def ping_def ping_config_def misdirected_config_def)
  from webhook_config_failure_escapes[OF d, of "''hello''" idle] d show ?thesis
    by (simp add: idle_def)
qed

text \<open>
  C1, at the inputs where it fails: \<open>broken\<close> (configuration \<^verbatim>\<open>{not json\<close>) and
  \<open>misdirected\<close> (url \<^verbatim>\<open>not a url\<close>) are invoked with \<^verbatim>\<open>"hello"\<close> on an empty audit table.
  Each call ends with an audit table that is still empty: no entry is written, where the
  claim says exactly one is.
\<close>

theorem unreadable_webhook_config_writes_no_entry:
  "auditLog (snd (execute (scenario_env passed) (WebhookSkillTool broken) ''hello'' idle)) = []
   \<and> auditLog (snd (execute (scenario_env passed) (WebhookSkillTool misdirected) ''hello'' idle)) = []"
  by code_simp

text \<open>
  C2, at the same inputs: the calls do not resolve to a value. The \<^verbatim>\<open>SyntaxError\<close> of
  \<^verbatim>\<open>JSON.parse\<close> and the \<^verbatim>\<open>TypeError\<close> of the \<^verbatim>\<open>URL\<close> constructor reach the caller.
\<close>

theorem unreadable_webhook_config_throws:
  "fst (execute (scenario_env passed) (WebhookSkillTool broken) ''hello'' idle)
     = Inl (SyntaxError ''Unexpected token n in JSON at position 1'')
   \<and> fst (execute (scenario_env passed) (WebhookSkillTool misdirected) ''hello'' idle)
     = Inl (TypeError ''Invalid URL'')"
  by code_simp

section \<open>Loading the tools\<close>

lemma createToolFromSkill_snapshot:
  "createToolFromSkill sk = Some tf \<Longrightarrow> snapshot tf = sk"
  by (auto simp: createToolFromSkill_def createTemplateSkillTool_def createWebhookSkillTool_def
        createCodeSkillTool_def split: if_splits)

lemma loadTools_loop_source:
  "own_keys (loadTools_loop sks tools) n = Some tf \<Longrightarrow>
     own_keys tools n = Some tf
     \<or> (\<exists>sk\<in>set sks. name sk = n \<and> createToolFromSkill sk = Some tf)"
proof (induction sks arbitrary: tools)
  case Nil
  then show ?case by simp
next
  case (Cons sk rest)
  from Cons.IH[OF Cons.prems[simplified]] show ?case
    by (auto simp: assign_def split: option.splits if_splits)
qed

lemma loadTools_loop_prototype_source:
  "prototype (loadTools_loop sks tools) = Some tf \<Longrightarrow>
     prototype tools = Some tf
     \<or> (\<exists>sk\<in>set sks. name sk = ''__proto__'' \<and> createToolFromSkill sk = Some tf)"
proof (induction sks arbitrary: tools)
  case Nil
  then show ?case by simp
next
  case (Cons sk rest)
  from Cons.IH[OF Cons.prems[simplified]] show ?case
    by (auto simp: assign_def split: option.splits if_splits)
qed



lemma loadTools_loop_no_own_proto:
  "own_keys (loadTools_loop sks tools) ''__proto__'' = own_keys tools ''__proto__''"
  by (induction sks arbitrary: tools) (auto simp: assign_def split: option.splits)

text \<open>
  C9: every tool of the produced mapping is built from a record of the registry that is
  approved and active, and stands under that record's name; so a record with
  \<open>approved = False\<close> or \<open>active = False\<close> is the snapshot of no tool. The same holds for
  a tool that an assignment to \<^verbatim>\<open>__proto__\<close> has made the prototype of the object.
\<close>

theorem loadTools_only_eligible:
  assumes "own_keys (loadTools registry) n = Some tf
         \<or> (n = ''__proto__'' \<and> prototype (loadTools registry) = Some tf)"
  shows "snapshot tf \<in> set registry \<and> approved (snapshot tf) \<and> active (snapshot tf)
       \<and> name (snapshot tf) = n \<and> createToolFromSkill (snapshot tf) = Some tf
       \<and> (\<forall>sk. \<not> (approved sk \<and> active sk) \<longrightarrow> snapshot tf \<noteq> sk)"
proof -
  from assms
  have "\<exists>sk\<in>set (getActiveApproved registry). name sk = n \<and> createToolFromSkill sk = Some tf"
  proof
    assume "own_keys (loadTools registry) n = Some tf"
    from loadTools_loop_source[OF this[unfolded loadTools_def]] show ?thesis
      by simp
  next
    assume "n = ''__proto__'' \<and> prototype (loadTools registry) = Some tf"
    then have n: "n = ''__proto__''" and "prototype (loadTools registry) = Some tf"
      by simp_all
    from loadTools_loop_prototype_source[OF this(2)[unfolded loadTools_def]] n show ?thesis
      by simp
  qed
  then obtain sk where "sk \<in> set (getActiveApproved registry)" "name sk = n"
    "createToolFromSkill sk = Some tf"
    by auto
  moreover from this have "snapshot tf = sk"
    by (simp add: createToolFromSkill_snapshot)
  ultimately show ?thesis
    by (auto simp: getActiveApproved_def)
qed

theorem loadTools_only_eligible_witness:
  "own_keys (loadTools [greet\<lparr>approved := False\<rparr>, ping\<lparr>active := False\<rparr>, ping]) ''ping''
     = Some (WebhookSkillTool ping)
   \<and> approved ping \<and> active ping
   \<and> own_keys (loadTools [greet\<lparr>approved := False\<rparr>, ping\<lparr>active := False\<rparr>, ping]) ''greet''
     = None"
proof -
  have l: "own_keys (loadTools [greet\<lparr>approved := False\<rparr>, ping\<lparr>active := False\<rparr>, ping]) ''ping''
             = Some (WebhookSkillTool ping)"
    by (simp add: loadTools_def getActiveApproved_def greet_def ping_def createToolFromSkill_def
          createWebhookSkillTool_def assign_def)
  have g: "own_keys (loadTools [greet\<lparr>approved := False\<rparr>, ping\<lparr>active := False\<rparr>, ping]) ''greet''
             = None"
    by (simp add: loadTools_def getActiveApproved_def greet_def ping_def createToolFromSkill_def
          createWebhookSkillTool_def assign_def)
  from loadTools_only_eligible[OF disjI1[OF l]] l g show ?thesis
    by simp
qed




text \<open>
  C3, at the input where it fails. The registry holds \<open>broken\<close>, whose configuration is
  not JSON, and \<open>greet\<close>. Both tools are loaded, so the bad skill does not keep the other
  one out of the tool set; but invoking the bad skill's tool is not caught, logged and
  returned as an error payload: the \<^verbatim>\<open>SyntaxError\<close> escapes and the audit table stays
  empty.
\<close>

theorem bad_skill_loads_but_its_failure_escapes:
  "own_keys (loadTools [broken, greet]) ''greet'' = Some (TemplateSkillTool greet)
   \<and> own_keys (loadTools [broken, greet]) ''broken'' = Some (WebhookSkillTool broken)
   \<and> execute (scenario_env passed) (WebhookSkillTool broken) ''hello'' idle =
       (Inl (SyntaxError ''Unexpected token n in JSON at position 1''),
        \<lparr>auditLog = [], actionCalls = [], clockReads = 1\<rparr>)"
proof (intro conjI)
  show "own_keys (loadTools [broken, greet]) ''greet'' = Some (TemplateSkillTool greet)"
    by (simp add: loadTools_def getActiveApproved_def greet_def broken_def ping_def
          createToolFromSkill_def createWebhookSkillTool_def createTemplateSkillTool_def
          assign_def)
  show "own_keys (loadTools [broken, greet]) ''broken'' = Some (WebhookSkillTool broken)"
    by (simp add: loadTools_def getActiveApproved_def greet_def broken_def ping_def
          createToolFromSkill_def createWebhookSkillTool_def createTemplateSkillTool_def
          assign_def)
  show "execute (scenario_env passed) (WebhookSkillTool broken) ''hello'' idle =
       (Inl (SyntaxError ''Unexpected token n in JSON at position 1''),
        \<lparr>auditLog = [], actionCalls = [], clockReads = 1\<rparr>)"
    by code_simp
qed


section \<open>Reading the audit table\<close>

lemma sorted_wrt_take_rev_key:
  fixes key :: "row \<Rightarrow> 'k::linorder"
  assumes "sorted (map key xs)"
  shows "sorted_wrt (\<lambda>a b. key a \<ge> key b) (take n (rev xs))"
proof -
  have "sorted_wrt (\<lambda>a b. key a \<le> key b) xs"
    using assms by (simp add: sorted_map)
  then have "sorted_wrt (\<lambda>a b. key b \<le> key a) (rev xs)"
    by (simp add: sorted_wrt_rev)
  then show ?thesis
    by (rule sorted_wrt_take)
qed

lemma listRecent_newest_first: "newest_first (listRecent by_timestamp t limit)"
proof -
  have "sorted (map by_timestamp (sort_key by_timestamp t))"
    by simp
  then have "sorted_wrt (\<lambda>a b. by_timestamp a \<ge> by_timestamp b)
     (take (page_size limit) (rev (sort_key by_timestamp t)))"
    by (rule sorted_wrt_take_rev_key)
  then show ?thesis
    by (simp add: newest_first_def listRecent_def order_desc_def withIndex_def by_timestamp_def)
qed

lemma listBySkill_newest_first: "newest_first (listBySkill by_skill t sname limit)"
proof -
  let ?xs = "filter (\<lambda>r. skillName (doc r) = sname) (sort_key by_skill t)"
  let ?ys = "take (page_size limit) (rev ?xs)"
  have "sorted (map by_skill ?xs)"
    by (simp add: sorted_filter)
  then have s: "sorted_wrt (\<lambda>a b. by_skill a \<ge> by_skill b) ?ys"
    by (rule sorted_wrt_take_rev_key)
  have n: "\<And>r. r \<in> set ?ys \<Longrightarrow> skillName (doc r) = sname"
    by (auto dest: in_set_takeD)
  have "sorted_wrt (\<lambda>a b. timestamp (doc a) \<ge> timestamp (doc b)) ?ys"
  proof (rule sorted_wrt_mono_rel[OF _ s])
    fix a b
    assume "a \<in> set ?ys" "b \<in> set ?ys" "by_skill b \<le> by_skill a"
    with n[of a] n[of b] show "timestamp (doc b) \<le> timestamp (doc a)"
      by (simp add: by_skill_def)
  qed
  then show ?thesis
    by (simp add: newest_first_def listBySkill_def order_desc_def withIndex_def)
qed

text \<open>
  The two reads that name recency, by skill and most recent overall, return their
  entries newest first, and all three reads return at most the requested number of
  entries, 50 when no limit is given.
\<close>

theorem reads_bounded_and_recent_reads_newest_first:
  "newest_first (listBySkill by_skill t sname limit)
   \<and> newest_first (listRecent by_timestamp t limit)
   \<and> length (listBySkill by_skill t sname limit) \<le> page_size limit
   \<and> length (listRecent by_timestamp t limit) \<le> page_size limit
   \<and> length (listSecurityFailures key t limit) \<le> page_size limit
   \<and> page_size None = 50 \<and> page_size (Some k) = k"
  by (simp add: listBySkill_newest_first listRecent_newest_first)
     (simp add: listBySkill_def listRecent_def listSecurityFailures_def page_size_def)

text \<open>
  The security-failures read returns only entries whose \<open>securityCheckResult\<close> is not
  \<^verbatim>\<open>passed\<close>, each of them stored in the table, in descending order of the key of the
  index it reads. For an index keyed by result code and timestamp that is by code first,
  and newest first only among entries with the same code.
\<close>

theorem listSecurityFailures_content_and_order:
  "filter (\<lambda>r. securityCheckResult (doc r) \<noteq> ''passed'') (listSecurityFailures key t limit)
     = listSecurityFailures key t limit
   \<and> set (listSecurityFailures key t limit) \<subseteq> set t
   \<and> sorted_wrt (\<lambda>a b. key a \<ge> key b)
        (listSecurityFailures key t limit)"
proof (intro conjI)
  let ?xs = "filter (\<lambda>r. securityCheckResult (doc r) \<noteq> ''passed'')
               (sort_key key t)"
  show "filter (\<lambda>r. securityCheckResult (doc r) \<noteq> ''passed'') (listSecurityFailures key t limit)
          = listSecurityFailures key t limit"
    by (auto simp: listSecurityFailures_def order_desc_def withIndex_def filter_id_conv
          dest: in_set_takeD)
  show "set (listSecurityFailures key t limit) \<subseteq> set t"
    by (auto simp: listSecurityFailures_def order_desc_def withIndex_def dest: in_set_takeD)
  have "sorted (map key ?xs)"
    by (simp add: sorted_filter)
  then have "sorted_wrt (\<lambda>a b. key a \<ge> key b)
      (take (page_size limit) (rev ?xs))"
    by (rule sorted_wrt_take_rev_key)
  then show "sorted_wrt (\<lambda>a b. key a \<ge> key b)
      (listSecurityFailures key t limit)"
    by (simp add: listSecurityFailures_def order_desc_def withIndex_def)
qed

text \<open>
  C5, at the input where it fails. The table holds two denied invocations: \<open>limited\<close>
  (\<^verbatim>\<open>rate_limited\<close>, logged at 1700000000100) and the newer \<open>refused\<close>
  (\<^verbatim>\<open>domain_not_allowlisted\<close>, logged at 1700000000200). The security-failures read
  returns the older entry first, because \<^verbatim>\<open>rate_limited\<close> is the greater result code: its
  page is not newest first, where the other two reads are.
\<close>

theorem listSecurityFailures_not_newest_first:
  "listSecurityFailures by_security_result failures None = [limited, refused]
   \<and> map (\<lambda>r. timestamp (doc r)) (listSecurityFailures by_security_result failures None)
       = [1700000000100, 1700000000200]
   \<and> \<not> newest_first (listSecurityFailures by_security_result failures None)
   \<and> listRecent by_timestamp failures None = [refused, limited]
   \<and> listBySkill by_skill failures ''ping'' None = [refused, limited]"
  by code_simp

text \<open>
  C6, at the input where it fails. With a page limit of 1 on the same table the read
  returns \<open>limited\<close>. The newest entry whose result is not \<^verbatim>\<open>passed\<close> is \<open>refused\<close>; it is
  stored, it matches, and it is not returned.
\<close>

theorem listSecurityFailures_misses_newest_failure:
  "listSecurityFailures by_security_result failures (Some 1) = [limited]
   \<and> refused \<in> set failures
   \<and> securityCheckResult (doc refused) \<noteq> ''passed''
   \<and> timestamp (doc limited) < timestamp (doc refused)
   \<and> refused \<notin> set (listSecurityFailures by_security_result failures (Some 1))"
  by code_simp


section \<open>The retention sweep\<close>

lemma delete_all_distinct:
  assumes "distinct (map doc_id ls)" and "set ls \<subseteq> set t"
  shows "delete_all ls t = Inr (filter (\<lambda>r. doc_id r \<notin> set (map doc_id ls)) t)"
  using assms
proof (induction ls arbitrary: t)
  case Nil
  then show ?case by simp
next
  case (Cons l ls)
  let ?t' = "filter (\<lambda>r. doc_id r \<noteq> doc_id l) t"
  have del: "db_delete (doc_id l) t = Inr ?t'"
    using Cons.prems(2) by (auto simp: db_delete_def)
  have "set ls \<subseteq> set ?t'"
    using Cons.prems by (auto simp: image_iff)
  with Cons.IH[of ?t'] Cons.prems(1)
  have "delete_all ls ?t' = Inr (filter (\<lambda>r. doc_id r \<notin> set (map doc_id ls)) ?t')"
    by simp
  then show ?case
    by (simp add: del conj_commute cong: filter_cong)
qed

lemma oldLogs_props:
  "set (oldLogs key now t) \<subseteq> set t"
  "length (oldLogs key now t) \<le> 1000"
  "distinct (map doc_id t) \<Longrightarrow> distinct (map doc_id (oldLogs key now t))"
  "r \<in> set (oldLogs key now t) \<Longrightarrow> timestamp (doc r) < cutoff now"
proof -
  show "set (oldLogs key now t) \<subseteq> set t"
    by (auto simp: oldLogs_def withIndex_def dest: in_set_takeD)
  show "length (oldLogs key now t) \<le> 1000"
    by (simp add: oldLogs_def)
  show "r \<in> set (oldLogs key now t) \<Longrightarrow> timestamp (doc r) < cutoff now"
    by (auto simp: oldLogs_def dest: in_set_takeD)
  show "distinct (map doc_id t) \<Longrightarrow> distinct (map doc_id (oldLogs key now t))"
    unfolding oldLogs_def withIndex_def
    by (simp add: take_map[symmetric] distinct_map_filter distinct_map inj_on_def)
qed

lemma cleanup_eq:
  assumes "distinct (map doc_id t)"
  shows "cleanup key now t =
           Inr (length (oldLogs key now t), filter (\<lambda>r. r \<notin> set (oldLogs key now t)) t)"
proof -
  have inj: "inj_on doc_id (set t)"
    using assms by (simp add: distinct_map)
  have sub: "set (oldLogs key now t) \<subseteq> set t"
    by (rule oldLogs_props)
  have "\<And>r. r \<in> set t \<Longrightarrow>
          (doc_id r \<notin> set (map doc_id (oldLogs key now t))) = (r \<notin> set (oldLogs key now t))"
    using inj sub by (auto simp: inj_on_def)
  then have "filter (\<lambda>r. doc_id r \<notin> set (map doc_id (oldLogs key now t))) t =
             filter (\<lambda>r. r \<notin> set (oldLogs key now t)) t"
    by (auto intro: filter_cong)
  with delete_all_distinct[OF oldLogs_props(3)[OF assms] sub]
  show ?thesis
    by (simp add: cleanup_def)
qed

lemma length_after_removal:
  assumes "distinct t" and "distinct sel" and "set sel \<subseteq> set t"
  shows "length t = length (filter (\<lambda>r. r \<notin> set sel) t) + length sel"
proof -
  have "{r. r \<in> set sel} \<inter> set t = set sel"
    using assms(3) by auto
  then have "length (filter (\<lambda>r. r \<in> set sel) t) = length sel"
    using assms(1,2) by (simp add: distinct_length_filter distinct_card)
  with sum_length_filter_compl[of "\<lambda>r. r \<in> set sel" t] show ?thesis
    by simp
qed

text \<open>Documents have distinct ids in every table that \<^verbatim>\<open>log\<close> and \<^verbatim>\<open>cleanup\<close> build from
  the empty one: both keep ids distinct.\<close>

lemma foldr_max_bound: "(i::nat) \<in> set xs \<Longrightarrow> i \<le> foldr max xs 0"
  by (induction xs) auto

lemma fresh_id_unused: "fresh_id t \<notin> set (map doc_id t)"
  using foldr_max_bound[of "fresh_id t" "map doc_id t"]
  by (auto simp: fresh_id_def)

lemma log_keeps_ids_distinct:
  "distinct (map doc_id t) \<Longrightarrow> distinct (map doc_id (snd (log args t)))"
  using fresh_id_unused[of t] by (simp add: log_def db_insert_def)

lemma cleanup_keeps_ids_distinct:
  assumes "distinct (map doc_id t)" and "cleanup key now t = Inr (n, t')"
  shows "distinct (map doc_id t')"
  using assms cleanup_eq[OF assms(1), of key now]
  by (auto simp: distinct_map_filter)

text \<open>
  C7: on a table whose documents have distinct ids (as the database guarantees), one run
  of the sweep returns; it deletes at most 1000 entries; the number it returns is the
  number of entries that are gone; the table it leaves is the old one without the deleted
  entries; every deleted entry has a timestamp below \<open>now - 2592000000\<close>, which is 30 days
  in milliseconds; and every entry at or above that cutoff is still there.
\<close>

theorem cleanup_retention:
  assumes "distinct (map doc_id t)"
  shows "\<exists>n t'. cleanup key now t = Inr (n, t')
       \<and> n \<le> 1000
       \<and> length t = length t' + n
       \<and> t' = filter (\<lambda>r. r \<in> set t') t
       \<and> (\<forall>r\<in>set t. r \<notin> set t' \<longrightarrow> timestamp (doc r) < now - 2592000000)
       \<and> (\<forall>r\<in>set t. now - 2592000000 \<le> timestamp (doc r) \<longrightarrow> r \<in> set t')"
proof -
  let ?sel = "oldLogs key now t"
  let ?t' = "filter (\<lambda>r. r \<notin> set ?sel) t"
  have dt: "distinct t"
    using assms by (simp add: distinct_map)
  have ds: "distinct ?sel"
    using oldLogs_props(3)[OF assms, of key now] by (simp add: distinct_map)
  have old: "\<And>r. r \<in> set ?sel \<Longrightarrow> timestamp (doc r) < now - 2592000000"
    using oldLogs_props(4) by (simp add: cutoff_def)
  have "cleanup key now t = Inr (length ?sel, ?t')"
    by (rule cleanup_eq[OF assms])
  moreover have "length ?sel \<le> 1000"
    by (rule oldLogs_props)
  moreover have "length t = length ?t' + length ?sel"
    by (rule length_after_removal[OF dt ds oldLogs_props(1)])
  moreover have "?t' = filter (\<lambda>r. r \<in> set ?t') t"
    by (auto intro: filter_cong)
  moreover have "\<forall>r\<in>set t. r \<notin> set ?t' \<longrightarrow> timestamp (doc r) < now - 2592000000"
    using old by auto
  moreover have "\<forall>r\<in>set t. now - 2592000000 \<le> timestamp (doc r) \<longrightarrow> r \<in> set ?t'"
    using old by fastforce
  ultimately show ?thesis
    by blast
qed

text \<open>A sweep at 1702592000001 over one entry that is older than 30 days and one that is
  a second old: the old one is deleted, the count is 1.\<close>

theorem cleanup_retention_witness:
  "distinct (map doc_id [recent 1, aged 2])
   \<and> cleanup by_timestamp 1702592000001 [recent 1, aged 2] = Inr (1, [recent 1])"
proof -
  have d: "distinct (map doc_id [recent 1, aged 2])"
    by (simp add: recent_def aged_def)
  have "cleanup by_timestamp 1702592000001 [recent 1, aged 2] = Inr (1, [recent 1])"
    by code_simp
  with cleanup_retention[OF d, of by_timestamp 1702592000001] d show ?thesis
    by simp
qed

text \<open>
  C8 as amended: when the first run deleted fewer than 1000 entries, so that it reached
  the end of the old entries, and no stored entry falls below the cutoff between the two
  runs (as when both runs read the same clock value), the second run deletes nothing,
  returns 0 and leaves the table as it found it.
\<close>

theorem second_sweep_deletes_nothing:
  assumes "distinct (map doc_id t)"
    and "cleanup key now1 t = Inr (n1, t1)"
    and "n1 < 1000"
    and "\<forall>r\<in>set t. timestamp (doc r) < cutoff now2 \<longrightarrow> timestamp (doc r) < cutoff now1"
  shows "cleanup key now2 t1 = Inr (0, t1)"
proof -
  let ?old = "filter (\<lambda>r. timestamp (doc r) < cutoff now1) (withIndex key t)"
  from assms(2) cleanup_eq[OF assms(1), of key now1]
  have n1: "n1 = length (oldLogs key now1 t)"
    and t1: "t1 = filter (\<lambda>r. r \<notin> set (oldLogs key now1 t)) t"
    by simp_all
  from n1 assms(3) have "length ?old < 1000"
    by (simp add: oldLogs_def min_def split: if_splits)
  then have "oldLogs key now1 t = ?old"
    by (simp add: oldLogs_def)
  then have "set (oldLogs key now1 t) = {r \<in> set t. timestamp (doc r) < cutoff now1}"
    by (auto simp: withIndex_def)
  with t1 have "\<forall>r\<in>set t1. \<not> timestamp (doc r) < cutoff now1" and "set t1 \<subseteq> set t"
    by auto
  with assms(4) have "\<forall>r\<in>set t1. \<not> timestamp (doc r) < cutoff now2"
    by blast
  then have "filter (\<lambda>r. timestamp (doc r) < cutoff now2) (withIndex key t1) = []"
    by (simp add: withIndex_def)
  then show ?thesis
    by (simp add: cleanup_def oldLogs_def)
qed

theorem second_sweep_deletes_nothing_witness:
  "distinct (map doc_id [recent 1, aged 2])
   \<and> cleanup by_timestamp 1702592000001 [recent 1, aged 2] = Inr (1, [recent 1])
   \<and> cleanup by_timestamp 1702592000001 [recent 1] = Inr (0, [recent 1])"
proof -
  have d: "distinct (map doc_id [recent 1, aged 2])"
    by (simp add: recent_def aged_def)
  have c: "cleanup by_timestamp 1702592000001 [recent 1, aged 2] = Inr (1, [recent 1])"
    by code_simp
  from second_sweep_deletes_nothing[OF d c, of 1702592000001] d c show ?thesis
    by simp
qed

lemma backlog_oldLogs: "oldLogs by_timestamp 1702592000001 backlog = map aged [0..<1000]"
proof -
  have "sorted (map by_timestamp backlog)"
    by (simp add: backlog_def sorted_map by_timestamp_def aged_def entry_def)
  then have "withIndex by_timestamp backlog = backlog"
    by (simp add: withIndex_def sort_key_id_if_sorted)
  moreover have "filter (\<lambda>r. timestamp (doc r) < cutoff 1702592000001) backlog = backlog"
    by (simp add: backlog_def cutoff_def aged_def entry_def)
  ultimately show ?thesis
    by (simp add: oldLogs_def) (simp add: backlog_def take_map)
qed

lemma backlog_distinct: "distinct (map doc_id backlog)"
proof -
  have "map doc_id backlog = [0..<1001]"
    by (simp add: backlog_def aged_def map_idI)
  then show ?thesis by simp
qed

lemma upt_1001: "[0..<1001] = [0..<1000] @ [1000::nat]"
proof -
  have "[0..<Suc 1000] = [0..<1000] @ [1000]"
    by (rule upt_Suc_append) simp
  moreover have "Suc 1000 = 1001"
    by simp
  ultimately show ?thesis
    by (simp only:)
qed

text \<open>
  C8 as stated fails. A table holds 1001 entries older than 30 days. The first run
  deletes 1000 of them, its batch; the second run, at the same clock value and with
  nothing added in between, deletes the one that was left and returns 1.
\<close>

theorem second_sweep_counterexample:
  "cleanup by_timestamp 1702592000001 backlog = Inr (1000, [aged 1000])
   \<and> cleanup by_timestamp 1702592000001 [aged 1000] = Inr (1, [])"
proof
  have "filter (\<lambda>r. r \<notin> set (map aged [0..<1000])) backlog = [aged 1000]"
    by (auto simp: backlog_def upt_1001 aged_def filter_empty_conv)
  then show "cleanup by_timestamp 1702592000001 backlog = Inr (1000, [aged 1000])"
    by (simp add: cleanup_eq[OF backlog_distinct] backlog_oldLogs)
  show "cleanup by_timestamp 1702592000001 [aged 1000] = Inr (1, [])"
    by (simp add: cleanup_def oldLogs_def withIndex_def cutoff_def aged_def entry_def
          db_delete_def)
qed


end
